theory Spec2Isabelle
  imports Complex_Main "HOL-Library.Product_Lexorder"
begin

section \<open>The study dashboard: domain model (models.py)\<close>

text \<open>
  Numbers. Python's \<open>int\<close> is unbounded and is modelled by \<open>int\<close>. A Python
  \<open>float\<close> is modelled by the rational number it denotes (type \<open>rat\<close>): sums,
  quotients and the rounding to two decimals are computed exactly, and the
  representation error of binary floating point is not part of the model.

  Objects. A class is a record of its attributes, a property is a function on the record.
  The records of this section are snapshots of the object graph: a semester's lists hold
  the modules as they are when a property is read.
\<close>

subsection \<open>Errors\<close>

datatype error =
    ValueError string
  | TypeError
  | KeyError
  | IntegrityError
  | ZeroDivisionError

subsection \<open>Arithmetic of the Python runtime\<close>

text \<open>
  \<open>a / b\<close>: true division, which raises \<open>ZeroDivisionError\<close> on a zero divisor.
\<close>

definition py_truediv :: "rat \<Rightarrow> rat \<Rightarrow> error + rat" where
  "py_truediv a b = (if b = 0 then Inl ZeroDivisionError else Inr (a / b))"

text \<open>
  \<open>round(x, 2)\<close>: the nearest multiple of 1/100, a tie going to the even multiple.
\<close>

definition py_round2 :: "rat \<Rightarrow> rat" where
  "py_round2 x =
     (let y = x * 100;
          f = \<lfloor>y\<rfloor>;
          d = y - of_int f
      in of_int (if d < 1 / 2 then f
                 else if 1 / 2 < d then f + 1
                 else if even f then f else f + 1) / 100)"

text \<open>
  \<open>statistics.mean\<close>. It raises on an empty list; the source calls it only under the
  guard \<open>if noten\<close>, so the model gives the quotient and is used on non-empty lists only.
\<close>

definition mean :: "rat list \<Rightarrow> rat" where
  "mean xs = sum_list xs / of_nat (length xs)"

subsection \<open>Pruefungsform\<close>

datatype Pruefungsform = KLAUSUR | HAUSARBEIT | PORTFOLIO | MUENDLICH | PROJEKT

text \<open>\<open>pruefungsform.name\<close>, the member's name.\<close>

fun Pruefungsform_name :: "Pruefungsform \<Rightarrow> string" where
  "Pruefungsform_name KLAUSUR = ''KLAUSUR''"
| "Pruefungsform_name HAUSARBEIT = ''HAUSARBEIT''"
| "Pruefungsform_name PORTFOLIO = ''PORTFOLIO''"
| "Pruefungsform_name MUENDLICH = ''MUENDLICH''"
| "Pruefungsform_name PROJEKT = ''PROJEKT''"

text \<open>\<open>Pruefungsform[s]\<close>, the lookup by name, a \<open>KeyError\<close> for any other string.\<close>

definition Pruefungsform_getitem :: "string \<Rightarrow> error + Pruefungsform" where
  "Pruefungsform_getitem s =
     (if s = ''KLAUSUR'' then Inr KLAUSUR
      else if s = ''HAUSARBEIT'' then Inr HAUSARBEIT
      else if s = ''PORTFOLIO'' then Inr PORTFOLIO
      else if s = ''MUENDLICH'' then Inr MUENDLICH
      else if s = ''PROJEKT'' then Inr PROJEKT
      else Inl KeyError)"

subsection \<open>Pruefungsleistung\<close>

record Pruefungsleistung =
  pl_bezeichnung :: string
  pl_datum :: "string option"
  pl_note :: "rat option"
  pl_versuch_nr :: int

subsection \<open>Modul\<close>

record Modul =
  m_name :: string
  m_kuerzel :: string
  m_ects :: int
  m_pruefungsform :: Pruefungsform
  m_leistungen :: "Pruefungsleistung list"

text \<open>\<open>Modul.__init__\<close>: a module starts with no exam results.\<close>

definition Modul_init :: "string \<Rightarrow> string \<Rightarrow> int \<Rightarrow> Pruefungsform \<Rightarrow> Modul" where
  "Modul_init name kuerzel ects pruefungsform =
     \<lparr>m_name = name, m_kuerzel = kuerzel, m_ects = ects,
      m_pruefungsform = pruefungsform, m_leistungen = []\<rparr>"

text \<open>
  \<open>noten = [p.note for p in self._leistungen if p.note is not None]\<close>
\<close>

fun noten :: "Pruefungsleistung list \<Rightarrow> rat list" where
  "noten [] = []"
| "noten (p # ps) = (case pl_note p of None \<Rightarrow> noten ps | Some n \<Rightarrow> n # noten ps)"

definition Modul_durchschnitt :: "Modul \<Rightarrow> rat option" where
  "Modul_durchschnitt m =
     (let ns = noten (m_leistungen m)
      in if ns \<noteq> [] then Some (py_round2 (mean ns)) else None)"

definition Modul_ist_bestanden :: "Modul \<Rightarrow> bool" where
  "Modul_ist_bestanden m =
     (case Modul_durchschnitt m of None \<Rightarrow> False | Some d \<Rightarrow> d \<le> 4)"

definition Modul_status :: "Modul \<Rightarrow> string" where
  "Modul_status m =
     (if m_leistungen m = [] then ''offen''
      else if Modul_ist_bestanden m then ''abgeschlossen'' else ''laufend'')"

definition add_pruefungsleistung :: "Modul \<Rightarrow> Pruefungsleistung \<Rightarrow> Modul" where
  "add_pruefungsleistung m leistung = m\<lparr>m_leistungen := m_leistungen m @ [leistung]\<rparr>"

subsection \<open>Semester\<close>

text \<open>
  The record is polymorphic in what its two lists hold: module objects in a snapshot, and
  references to module objects while \<open>load_domain\<close> builds the graph.
\<close>

record 'm Semester =
  s_nummer :: int
  s_bezeichnung :: string
  s_geplante_module :: "'m list"
  s_bestandene_module :: "'m list"

definition Semester_init :: "int \<Rightarrow> string \<Rightarrow> 'm Semester" where
  "Semester_init nummer bezeichnung =
     \<lparr>s_nummer = nummer, s_bezeichnung = bezeichnung,
      s_geplante_module = [], s_bestandene_module = []\<rparr>"

definition belege :: "'m Semester \<Rightarrow> 'm \<Rightarrow> string \<Rightarrow> 'm Semester" where
  "belege s modul art =
     (if art = ''geplant'' then s\<lparr>s_geplante_module := s_geplante_module s @ [modul]\<rparr>
      else s\<lparr>s_bestandene_module := s_bestandene_module s @ [modul]\<rparr>)"

definition geplante_ects :: "Modul Semester \<Rightarrow> int" where
  "geplante_ects s = sum_list (map m_ects (s_geplante_module s))"

definition erreichte_ects :: "Modul Semester \<Rightarrow> int" where
  "erreichte_ects s =
     sum_list (map m_ects (filter Modul_ist_bestanden (s_bestandene_module s)))"

definition Semester_fortschritt :: "Modul Semester \<Rightarrow> error + rat" where
  "Semester_fortschritt s =
     (if geplante_ects s \<noteq> 0
      then py_truediv (of_int (erreichte_ects s)) (of_int (geplante_ects s))
      else Inr 0)"

subsection \<open>Studiengang\<close>

record Studiengang =
  sg_name :: string
  sg_gesamt_ects :: int
  sg_regelstudienzeit :: int
  sg_semester :: "Modul Semester list"
  sg_module :: "Modul list"

definition ects_bestanden :: "Studiengang \<Rightarrow> int" where
  "ects_bestanden sg = sum_list (map m_ects (filter Modul_ist_bestanden (sg_module sg)))"

definition Studiengang_fortschritt :: "Studiengang \<Rightarrow> error + rat" where
  "Studiengang_fortschritt sg =
     (if sg_gesamt_ects sg \<noteq> 0
      then py_truediv (of_int (ects_bestanden sg)) (of_int (sg_gesamt_ects sg))
      else Inr 0)"

text \<open>
  \<open>m.durchschnitt or 0\<close>: the average of a module of \<open>module_mit_note\<close>, and 0 for an
  absent (or zero) one.
\<close>

definition durchschnitt_or_0 :: "Modul \<Rightarrow> rat" where
  "durchschnitt_or_0 m =
     (case Modul_durchschnitt m of None \<Rightarrow> 0 | Some d \<Rightarrow> (if d = 0 then 0 else d))"

definition Studiengang_durchschnitt :: "Studiengang \<Rightarrow> error + rat option" where
  "Studiengang_durchschnitt sg =
     (let module_mit_note = filter (\<lambda>m. Modul_durchschnitt m \<noteq> None) (sg_module sg)
      in if module_mit_note = [] then Inr None
         else let ges_ects = sum_list (map m_ects module_mit_note)
              in if ges_ects = 0 then Inr None
                 else let gew_sum =
                            sum_list (map (\<lambda>m. durchschnitt_or_0 m * of_int (m_ects m))
                                          module_mit_note)
                      in case py_truediv gew_sum (of_int ges_ects) of
                           Inl e \<Rightarrow> Inl e
                         | Inr q \<Rightarrow> Inr (Some (py_round2 q)))"

section \<open>The SQLite store (db.py)\<close>

text \<open>
  A table is the list of its rows in rowid order, which is the order of a table scan and,
  since a new row gets a rowid above every stored one, the order of insertion. The
  columns are those of the DDL; a nullable column is an \<open>option\<close>.
\<close>

record studiengang_row =
  sgr_id :: int
  sgr_name :: string
  sgr_gesamt_ects :: int
  sgr_regelstudienzeit :: int

record semester_row =
  semr_id :: int
  semr_nr :: int
  semr_bezeichnung :: string
  semr_studiengang_id :: int

record modul_row =
  modr_id :: int
  modr_name :: string
  modr_kuerzel :: string
  modr_ects :: int
  modr_pruefungsform :: string
  modr_studiengang_id :: int

record belegung_row =
  belr_id :: int
  belr_art :: string
  belr_kommentar :: "string option"
  belr_semester_id :: int
  belr_modul_id :: int

record pruefungsleistung_row =
  plr_id :: int
  plr_bezeichnung :: string
  plr_datum :: "string option"
  plr_note :: "rat option"
  plr_versuch_nr :: int
  plr_modul_id :: int

record db =
  studiengang :: "studiengang_row list"
  semester :: "semester_row list"
  modul :: "modul_row list"
  belegung :: "belegung_row list"
  pruefungsleistung :: "pruefungsleistung_row list"

text \<open>
  \<open>id INTEGER PRIMARY KEY\<close> of an insert that names no id: one more than the largest
  stored rowid, and 1 in an empty table (stored rowids are positive).
\<close>

fun max_rowid :: "int list \<Rightarrow> int" where
  "max_rowid [] = 0"
| "max_rowid (i # is) = max i (max_rowid is)"

definition new_rowid :: "int list \<Rightarrow> int" where
  "new_rowid ids = max_rowid ids + 1"

text \<open>
  \<open>ORDER BY key\<close> over a scan. SQLite's sorter keeps rows of equal key in the order in
  which the scan delivers them, and the model sorts stably; SQL itself leaves the
  order of such rows open.
\<close>

definition order_by :: "('r \<Rightarrow> 'k::linorder) \<Rightarrow> 'r list \<Rightarrow> 'r list" where
  "order_by key rows = sort_key key rows"

text \<open>\<open>row["id"]\<close> on the result of \<open>fetchone()\<close>, which is \<open>None\<close> when no row matches.\<close>

definition subscript :: "'a option \<Rightarrow> error + 'a" where
  "subscript row = (case row of None \<Rightarrow> Inl TypeError | Some v \<Rightarrow> Inr v)"

text \<open>\<open>fetchone()\<close>: the first row of a result, if any.\<close>

definition fetchone :: "'a list \<Rightarrow> 'a option" where
  "fetchone rows = (case rows of [] \<Rightarrow> None | r # _ \<Rightarrow> Some r)"

text \<open>The state after the DDL script has run on a new file: every table, no row.\<close>

definition empty_db :: db where
  "empty_db = \<lparr>studiengang = [], semester = [], modul = [], belegung = [],
               pruefungsleistung = []\<rparr>"

text \<open>\<open>f"Semester {nr}"\<close> needs the decimal form of an integer.\<close>

definition digit_char :: "nat \<Rightarrow> char" where
  "digit_char n = char_of (48 + n)"

function str_nat :: "nat \<Rightarrow> string" where
  "str_nat n = (if n < 10 then [digit_char n] else str_nat (n div 10) @ [digit_char (n mod 10)])"
  by pat_completeness auto
termination
  by (relation "measure (\<lambda>n. n)") auto

definition str_int :: "int \<Rightarrow> string" where
  "str_int i = (if i < 0 then CHR ''-'' # str_nat (nat (- i)) else str_nat (nat i))"

definition insert_semester :: "int \<Rightarrow> string \<Rightarrow> int \<Rightarrow> db \<Rightarrow> db" where
  "insert_semester nr bezeichnung studiengang_id d =
     d\<lparr>semester := semester d @
          [\<lparr>semr_id = new_rowid (map semr_id (semester d)), semr_nr = nr,
            semr_bezeichnung = bezeichnung, semr_studiengang_id = studiengang_id\<rparr>]\<rparr>"

text \<open>
  \<open>init_if_needed\<close>. The argument is the database file: \<open>None\<close> for a file without
  tables, on which the script's \<open>CREATE TABLE IF NOT EXISTS\<close> creates them, and
  \<open>Some d\<close> for a file that has them, which the script leaves as it is.
\<close>

definition init_if_needed :: "db option \<Rightarrow> error + db" where
  "init_if_needed file =
     (let d = (case file of None \<Rightarrow> empty_db | Some d \<Rightarrow> d)
      in if length (studiengang d) = 0
         then let d1 = d\<lparr>studiengang := studiengang d @
                          [\<lparr>sgr_id = new_rowid (map sgr_id (studiengang d)),
                            sgr_name = ''Bachelor Cybersecurity'',
                            sgr_gesamt_ects = 180, sgr_regelstudienzeit = 8\<rparr>]\<rparr>
              in case subscript (fetchone (map sgr_id (studiengang d1))) of
                   Inl e \<Rightarrow> Inl e
                 | Inr sg_id \<Rightarrow>
                     Inr (fold (\<lambda>nr. insert_semester nr (''Semester '' @ str_int nr) sg_id)
                               [1..8] d1)
         else Inr d)"

section \<open>The gateway (repo.py)\<close>

text \<open>
  Every operation opens a connection, works in one transaction and closes the
  connection. An operation is a function from the stored state to \<open>error + db\<close>:
  \<open>Inr d\<close> is the committed state, \<open>Inl e\<close> the exception that reaches the caller, in
  which case the transaction is rolled back and the stored state is the one before.
\<close>

subsection \<open>Looking rows up\<close>

text \<open>\<open>SELECT id FROM modul WHERE kuerzel=? LIMIT 1\<close>\<close>

definition select_modul_id :: "db \<Rightarrow> string \<Rightarrow> int option" where
  "select_modul_id d kuerzel =
     fetchone (map modr_id (filter (\<lambda>r. modr_kuerzel r = kuerzel) (modul d)))"


text \<open>
  \<open>SELECT s.id FROM semester s JOIN studiengang g ON g.id=s.studiengang_id WHERE s.nr=?
  LIMIT 1\<close>: the semesters of that number whose program is stored.
\<close>

definition select_semester_id_join :: "db \<Rightarrow> int \<Rightarrow> int option" where
  "select_semester_id_join d nr =
     fetchone (map semr_id
       (filter (\<lambda>s. semr_nr s = nr \<and> semr_studiengang_id s \<in> set (map sgr_id (studiengang d)))
               (semester d)))"

definition nicht_gefunden :: "string \<Rightarrow> string" where
  "nicht_gefunden kuerzel = ''Modul '' @ [CHR 0x27] @ kuerzel @ [CHR 0x27] @ '' nicht gefunden''"

definition get_modul_id :: "db \<Rightarrow> string \<Rightarrow> error + int" where
  "get_modul_id d kuerzel =
     (case select_modul_id d kuerzel of
        None \<Rightarrow> Inl (ValueError (nicht_gefunden kuerzel))
      | Some i \<Rightarrow> Inr i)"

subsection \<open>Modules\<close>


text \<open>\<open>create_modul\<close>: the new module belongs to the first stored program.\<close>

definition create_modul :: "db \<Rightarrow> string \<Rightarrow> string \<Rightarrow> int \<Rightarrow> Pruefungsform \<Rightarrow> error + db" where
  "create_modul d name kuerzel ects pruefungsform =
     (case subscript (fetchone (map sgr_id (studiengang d))) of
        Inl e \<Rightarrow> Inl e
      | Inr sg_id \<Rightarrow>
          Inr (d\<lparr>modul := modul d @
                 [\<lparr>modr_id = new_rowid (map modr_id (modul d)), modr_name = name,
                   modr_kuerzel = kuerzel, modr_ects = ects,
                   modr_pruefungsform = Pruefungsform_name pruefungsform,
                   modr_studiengang_id = sg_id\<rparr>]\<rparr>))"




subsection \<open>Exam results\<close>

definition create_pruefungsleistung ::
  "db \<Rightarrow> string \<Rightarrow> string \<Rightarrow> string option \<Rightarrow> rat option \<Rightarrow> int \<Rightarrow> error + db" where
  "create_pruefungsleistung d modul_kuerzel bezeichnung datum note versuch_nr =
     (case subscript (select_modul_id d modul_kuerzel) of
        Inl e \<Rightarrow> Inl e
      | Inr mod_id \<Rightarrow>
          Inr (d\<lparr>pruefungsleistung := pruefungsleistung d @
                 [\<lparr>plr_id = new_rowid (map plr_id (pruefungsleistung d)),
                   plr_bezeichnung = bezeichnung, plr_datum = datum, plr_note = note,
                   plr_versuch_nr = versuch_nr, plr_modul_id = mod_id\<rparr>]\<rparr>))"

text \<open>
  \<open>list_pruefungsleistungen\<close>: \<open>WHERE modul_id=? ORDER BY versuch_nr, id\<close>.
\<close>

definition list_pruefungsleistungen :: "db \<Rightarrow> string \<Rightarrow> error + pruefungsleistung_row list" where
  "list_pruefungsleistungen d kuerzel =
     (case get_modul_id d kuerzel of
        Inl e \<Rightarrow> Inl e
      | Inr mod_id \<Rightarrow>
          Inr (order_by (\<lambda>p. (plr_versuch_nr p, plr_id p))
                 (filter (\<lambda>p. plr_modul_id p = mod_id) (pruefungsleistung d))))"



subsection \<open>Enrollments\<close>

text \<open>
  The constraints of table \<open>belegung\<close>: \<open>CHECK(art IN ('geplant','aktuell'))\<close> and
  \<open>UNIQUE(semester_id, modul_id, art)\<close>.
\<close>

definition check_art :: "string \<Rightarrow> bool" where
  "check_art art = (art = ''geplant'' \<or> art = ''aktuell'')"

definition belegung_key :: "belegung_row \<Rightarrow> int \<times> int \<times> string" where
  "belegung_key b = (belr_semester_id b, belr_modul_id b, belr_art b)"

definition belegung_unique :: "belegung_row list \<Rightarrow> bool" where
  "belegung_unique rows = distinct (map belegung_key rows)"

text \<open>
  \<open>create_belegung\<close>: \<open>INSERT OR IGNORE\<close> skips the row, without an error, when it
  violates the CHECK or the UNIQUE constraint.
\<close>

definition create_belegung :: "db \<Rightarrow> int \<Rightarrow> string \<Rightarrow> string \<Rightarrow> string \<Rightarrow> error + db" where
  "create_belegung d semester_nr modul_kuerzel art kommentar =
     (case subscript (select_semester_id_join d semester_nr) of
        Inl e \<Rightarrow> Inl e
      | Inr sem_id \<Rightarrow>
          (case subscript (select_modul_id d modul_kuerzel) of
             Inl e \<Rightarrow> Inl e
           | Inr mod_id \<Rightarrow>
               if \<not> check_art art \<or> (sem_id, mod_id, art) \<in> set (map belegung_key (belegung d))
               then Inr d
               else Inr (d\<lparr>belegung := belegung d @
                      [\<lparr>belr_id = new_rowid (map belr_id (belegung d)), belr_art = art,
                        belr_kommentar = Some kommentar, belr_semester_id = sem_id,
                        belr_modul_id = mod_id\<rparr>]\<rparr>)))"



subsection \<open>Building the object graph\<close>

text \<open>
  \<open>load_domain\<close> creates one object per row and wires the objects through the
  dictionaries \<open>sem_map\<close> and \<open>mod_map\<close>, which map a row id to the object of that row.
  A semester's lists and the program's lists hold references to objects, and an exam
  result is added to a module object after the semesters already refer to it. In the
  model a reference is the id of the object's row (ids are primary keys, so every row has
  an object of its own), the dictionaries are maps from ids to object values, and the
  lists hold ids until the graph is returned, when they are read through the maps.
\<close>

type_synonym ref = int

definition Pruefungsleistung_of_row :: "pruefungsleistung_row \<Rightarrow> Pruefungsleistung" where
  "Pruefungsleistung_of_row r =
     \<lparr>pl_bezeichnung = plr_bezeichnung r, pl_datum = plr_datum r, pl_note = plr_note r,
      pl_versuch_nr = plr_versuch_nr r\<rparr>"

text \<open>The loop over the semester rows: \<open>sem_map[r["id"]] = sem; sg.add_semester(sem)\<close>,
  with \<open>sem_refs\<close> for the program's list of semesters.\<close>

fun load_semester ::
  "semester_row list \<Rightarrow> ref list \<times> (ref \<rightharpoonup> ref Semester) \<Rightarrow> ref list \<times> (ref \<rightharpoonup> ref Semester)" where
  "load_semester [] acc = acc"
| "load_semester (r # rs) (sem_refs, sem_map) =
     load_semester rs
       (sem_refs @ [semr_id r],
        sem_map(semr_id r \<mapsto> Semester_init (semr_nr r) (semr_bezeichnung r)))"

text \<open>The loop over the module rows; \<open>Pruefungsform[...]\<close> may raise.\<close>

fun load_module ::
  "modul_row list \<Rightarrow> ref list \<times> (ref \<rightharpoonup> Modul) \<Rightarrow> error + ref list \<times> (ref \<rightharpoonup> Modul)" where
  "load_module [] acc = Inr acc"
| "load_module (r # rs) (mod_refs, mod_map) =
     (case Pruefungsform_getitem (modr_pruefungsform r) of
        Inl e \<Rightarrow> Inl e
      | Inr pf \<Rightarrow>
          load_module rs
            (mod_refs @ [modr_id r],
             mod_map(modr_id r \<mapsto> Modul_init (modr_name r) (modr_kuerzel r) (modr_ects r) pf)))"

text \<open>
  The loop over the enrollments: \<open>sem_map[...]\<close> and \<open>mod_map[...]\<close> raise \<open>KeyError\<close>
  for an id without an object.
\<close>

fun load_belegung ::
  "belegung_row list \<Rightarrow> (ref \<rightharpoonup> Modul) \<Rightarrow> (ref \<rightharpoonup> ref Semester) \<Rightarrow> error + (ref \<rightharpoonup> ref Semester)" where
  "load_belegung [] mod_map sem_map = Inr sem_map"
| "load_belegung (r # rs) mod_map sem_map =
     (case sem_map (belr_semester_id r) of
        None \<Rightarrow> Inl KeyError
      | Some sem \<Rightarrow>
          (case mod_map (belr_modul_id r) of
             None \<Rightarrow> Inl KeyError
           | Some m \<Rightarrow>
               load_belegung rs mod_map
                 (sem_map(belr_semester_id r \<mapsto> belege sem (belr_modul_id r) (belr_art r)))))"

text \<open>The loop over the exam results.\<close>

fun load_pruefungsleistung ::
  "pruefungsleistung_row list \<Rightarrow> (ref \<rightharpoonup> Modul) \<Rightarrow> error + (ref \<rightharpoonup> Modul)" where
  "load_pruefungsleistung [] mod_map = Inr mod_map"
| "load_pruefungsleistung (r # rs) mod_map =
     (case mod_map (plr_modul_id r) of
        None \<Rightarrow> Inl KeyError
      | Some m \<Rightarrow>
          load_pruefungsleistung rs
            (mod_map(plr_modul_id r \<mapsto> add_pruefungsleistung m (Pruefungsleistung_of_row r))))"

text \<open>Reading the references of the finished graph.\<close>

definition deref :: "(ref \<rightharpoonup> 'a) \<Rightarrow> ref list \<Rightarrow> 'a list" where
  "deref heap refs = map (\<lambda>k. the (heap k)) refs"

definition Semester_snapshot :: "(ref \<rightharpoonup> Modul) \<Rightarrow> ref Semester \<Rightarrow> Modul Semester" where
  "Semester_snapshot mod_map s =
     \<lparr>s_nummer = s_nummer s, s_bezeichnung = s_bezeichnung s,
      s_geplante_module = deref mod_map (s_geplante_module s),
      s_bestandene_module = deref mod_map (s_bestandene_module s)\<rparr>"

definition load_domain :: "db \<Rightarrow> error + Studiengang" where
  "load_domain d =
     (case subscript (fetchone (studiengang d)) of
        Inl e \<Rightarrow> Inl e
      | Inr sg_row \<Rightarrow>
          (case load_semester
                  (order_by semr_nr
                     (filter (\<lambda>r. semr_studiengang_id r = sgr_id sg_row) (semester d)))
                  ([], Map.empty) of
             (sem_refs, sem_map0) \<Rightarrow>
          (case load_module
                  (filter (\<lambda>r. modr_studiengang_id r = sgr_id sg_row) (modul d))
                  ([], Map.empty) of
             Inl e \<Rightarrow> Inl e
           | Inr (mod_refs, mod_map0) \<Rightarrow>
          (case load_belegung (belegung d) mod_map0 sem_map0 of
             Inl e \<Rightarrow> Inl e
           | Inr sem_map \<Rightarrow>
          (case load_pruefungsleistung
                  (order_by plr_versuch_nr (pruefungsleistung d)) mod_map0 of
             Inl e \<Rightarrow> Inl e
           | Inr mod_map \<Rightarrow>
               Inr \<lparr>sg_name = sgr_name sg_row,
                    sg_gesamt_ects = sgr_gesamt_ects sg_row,
                    sg_regelstudienzeit = sgr_regelstudienzeit sg_row,
                    sg_semester = map (Semester_snapshot mod_map) (deref sem_map sem_refs),
                    sg_module = deref mod_map mod_refs\<rparr>)))))"

text \<open>
  What \<open>load_domain\<close> needs of a store to return: a program is stored; every module of
  the program names one of the five exam forms; every enrollment refers to a semester
  and a module of the program, and every exam result to a module of the program.
\<close>

definition referential_integrity :: "db \<Rightarrow> bool" where
  "referential_integrity d =
     (case fetchone (studiengang d) of
        None \<Rightarrow> False
      | Some sg_row \<Rightarrow>
          (let sems = filter (\<lambda>r. semr_studiengang_id r = sgr_id sg_row) (semester d);
               mods = filter (\<lambda>r. modr_studiengang_id r = sgr_id sg_row) (modul d)
           in list_all (\<lambda>r. modr_pruefungsform r \<in>
                  set (map Pruefungsform_name [KLAUSUR, HAUSARBEIT, PORTFOLIO, MUENDLICH, PROJEKT]))
                mods \<and>
              list_all (\<lambda>b. belr_semester_id b \<in> set (map semr_id sems) \<and>
                            belr_modul_id b \<in> set (map modr_id mods)) (belegung d) \<and>
              list_all (\<lambda>p. plr_modul_id p \<in> set (map modr_id mods)) (pruefungsleistung d)))"

section \<open>Example data\<close>


text \<open>A module whose only exam result has no grade yet.\<close>

definition ex_ungraded :: Modul where
  "ex_ungraded =
     add_pruefungsleistung (Modul_init ''Networks'' ''NET1'' 5 PROJEKT)
       \<lparr>pl_bezeichnung = ''Projekt'', pl_datum = None, pl_note = None, pl_versuch_nr = 1\<rparr>"



text \<open>
  The store that \<open>init_if_needed\<close> leaves on a new file: the default program and its
  eight semesters.
\<close>

definition ex_init_db :: db where
  "ex_init_db =
     \<lparr>studiengang =
        [\<lparr>sgr_id = 1, sgr_name = ''Bachelor Cybersecurity'', sgr_gesamt_ects = 180,
          sgr_regelstudienzeit = 8\<rparr>],
      semester =
        [\<lparr>semr_id = 1, semr_nr = 1, semr_bezeichnung = ''Semester 1'', semr_studiengang_id = 1\<rparr>,
         \<lparr>semr_id = 2, semr_nr = 2, semr_bezeichnung = ''Semester 2'', semr_studiengang_id = 1\<rparr>,
         \<lparr>semr_id = 3, semr_nr = 3, semr_bezeichnung = ''Semester 3'', semr_studiengang_id = 1\<rparr>,
         \<lparr>semr_id = 4, semr_nr = 4, semr_bezeichnung = ''Semester 4'', semr_studiengang_id = 1\<rparr>,
         \<lparr>semr_id = 5, semr_nr = 5, semr_bezeichnung = ''Semester 5'', semr_studiengang_id = 1\<rparr>,
         \<lparr>semr_id = 6, semr_nr = 6, semr_bezeichnung = ''Semester 6'', semr_studiengang_id = 1\<rparr>,
         \<lparr>semr_id = 7, semr_nr = 7, semr_bezeichnung = ''Semester 7'', semr_studiengang_id = 1\<rparr>,
         \<lparr>semr_id = 8, semr_nr = 8, semr_bezeichnung = ''Semester 8'', semr_studiengang_id = 1\<rparr>],
      modul = [], belegung = [], pruefungsleistung = []\<rparr>"

text \<open>
  A store with one module, planned in semester 1, and three exam results of that module:
  a second attempt stored first, then two first attempts.
\<close>

definition ex_db :: db where
  "ex_db =
     ex_init_db
       \<lparr>modul :=
          [\<lparr>modr_id = 1, modr_name = ''Algorithms'', modr_kuerzel = ''ALG1'', modr_ects = 5,
            modr_pruefungsform = ''KLAUSUR'', modr_studiengang_id = 1\<rparr>],
        belegung :=
          [\<lparr>belr_id = 1, belr_art = ''geplant'', belr_kommentar = Some [],
            belr_semester_id = 1, belr_modul_id = 1\<rparr>],
        pruefungsleistung :=
          [\<lparr>plr_id = 1, plr_bezeichnung = ''Wiederholung'', plr_datum = Some ''2025-03-01'',
            plr_note = Some (17 / 10), plr_versuch_nr = 2, plr_modul_id = 1\<rparr>,
           \<lparr>plr_id = 2, plr_bezeichnung = ''Klausur'', plr_datum = Some ''2025-01-15'',
            plr_note = Some 5, plr_versuch_nr = 1, plr_modul_id = 1\<rparr>,
           \<lparr>plr_id = 3, plr_bezeichnung = ''Nachtrag'', plr_datum = None,
            plr_note = None, plr_versuch_nr = 1, plr_modul_id = 1\<rparr>]\<rparr>"

text \<open>
  The specification's end-to-end run on a new file: initialise, create the module ALG1,
  enroll it in semester 1 as planned and in semester 2 as current, add the exam result of
  grade 1.7, and load the graph.
\<close>

definition ex_end_to_end :: "error + Studiengang" where
  "ex_end_to_end =
     (case init_if_needed None of Inl e \<Rightarrow> Inl e | Inr d0 \<Rightarrow>
      case create_modul d0 ''Algorithms'' ''ALG1'' 5 KLAUSUR of Inl e \<Rightarrow> Inl e | Inr d1 \<Rightarrow>
      case create_belegung d1 1 ''ALG1'' ''geplant'' [] of Inl e \<Rightarrow> Inl e | Inr d2 \<Rightarrow>
      case create_belegung d2 2 ''ALG1'' ''aktuell'' [] of Inl e \<Rightarrow> Inl e | Inr d3 \<Rightarrow>
      case create_pruefungsleistung d3 ''ALG1'' ''Klausur'' None (Some (17 / 10)) 1 of
        Inl e \<Rightarrow> Inl e | Inr d4 \<Rightarrow>
      load_domain d4)"

section \<open>Properties of the domain model\<close>

subsection \<open>Rounding and sums\<close>




lemma noten_Nil_iff: "noten ps = [] \<longleftrightarrow> (\<forall>p\<in>set ps. pl_note p = None)"
  by (induction ps) (auto split: option.splits)

lemma sum_list_nth_if:
  "sum_list (map f (filter P xs)) = (\<Sum>i<length xs. if P (xs ! i) then f (xs ! i) else (0::int))"
proof -
  have "sum_list (map f (filter P xs)) = sum_list (map (\<lambda>x. if P x then f x else 0) xs)"
    by (induction xs) auto
  also have "\<dots> = (\<Sum>i<length xs. if P (xs ! i) then f (xs ! i) else 0)"
    by (simp add: sum_list_sum_nth atLeast0LessThan)
  finally show ?thesis .
qed

lemma sum_list_nth_all: "sum_list (map f xs) = (\<Sum>i<length xs. (f (xs ! i) :: int))"
  by (simp add: sum_list_sum_nth atLeast0LessThan)


subsection \<open>The average of a module\<close>



subsection \<open>The status of a module\<close>

text \<open>
  Claim C2. The status is \<open>offen\<close> exactly when the module has no exam results,
  \<open>abgeschlossen\<close> exactly when its average exists and is at most 4.0, and \<open>laufend\<close>
  in every other case. In particular a module with exam results, none of them graded,
  has no average and the status \<open>laufend\<close>.
\<close>

theorem Modul_status_cases:
  "(Modul_status m = ''offen'' \<longleftrightarrow> m_leistungen m = []) \<and>
   (Modul_status m = ''abgeschlossen'' \<longleftrightarrow> (\<exists>d. Modul_durchschnitt m = Some d \<and> d \<le> 4)) \<and>
   (Modul_status m = ''laufend'' \<longleftrightarrow>
      m_leistungen m \<noteq> [] \<and> \<not> (\<exists>d. Modul_durchschnitt m = Some d \<and> d \<le> 4)) \<and>
   (m_leistungen m \<noteq> [] \<and> (\<forall>p\<in>set (m_leistungen m). pl_note p = None) \<longrightarrow>
      Modul_durchschnitt m = None \<and> Modul_status m = ''laufend'')"
proof -
  have nil: "m_leistungen m = [] \<Longrightarrow> Modul_durchschnitt m = None"
    by (simp add: Modul_durchschnitt_def)
  have best: "Modul_ist_bestanden m \<longleftrightarrow> (\<exists>d. Modul_durchschnitt m = Some d \<and> d \<le> 4)"
    by (simp add: Modul_ist_bestanden_def split: option.splits)
  have ungraded:
    "(\<forall>p\<in>set (m_leistungen m). pl_note p = None) \<Longrightarrow> Modul_durchschnitt m = None"
    by (simp add: Modul_durchschnitt_def noten_Nil_iff)
  show ?thesis
    using nil ungraded unfolding Modul_status_def best by auto
qed

theorem Modul_status_cases_witness:
  "m_leistungen ex_ungraded \<noteq> [] \<and>
   map pl_note (m_leistungen ex_ungraded) = [None] \<and>
   Modul_durchschnitt ex_ungraded = None \<and> Modul_status ex_ungraded = ''laufend''"
  using Modul_status_cases [of ex_ungraded]
  by (simp add: ex_ungraded_def add_pruefungsleistung_def Modul_init_def)

subsection \<open>The weighted average of a program\<close>




subsection \<open>The credits and the progress of a semester\<close>

text \<open>
  Claim C4. The planned credits of a semester are the sum of the credits over the
  positions of its planned list; the earned credits are the sum over the positions of its
  current/passed list, a module counting with its credits when it is passed and with 0
  otherwise; and the progress is returned without an error: earned by planned credits,
  and 0 when the planned credits are 0.
\<close>

theorem Semester_kennzahlen:
  "geplante_ects s = (\<Sum>i<length (s_geplante_module s). m_ects (s_geplante_module s ! i)) \<and>
   erreichte_ects s =
     (\<Sum>i<length (s_bestandene_module s).
        if Modul_ist_bestanden (s_bestandene_module s ! i)
        then m_ects (s_bestandene_module s ! i) else 0) \<and>
   Semester_fortschritt s =
     Inr (if geplante_ects s = 0 then 0
          else of_int (erreichte_ects s) / of_int (geplante_ects s))"
proof -
  have planned: "geplante_ects s =
      (\<Sum>i<length (s_geplante_module s). m_ects (s_geplante_module s ! i))"
    unfolding geplante_ects_def by (rule sum_list_nth_all)
  have earned: "erreichte_ects s =
     (\<Sum>i<length (s_bestandene_module s).
        if Modul_ist_bestanden (s_bestandene_module s ! i)
        then m_ects (s_bestandene_module s ! i) else 0)"
    unfolding erreichte_ects_def by (rule sum_list_nth_if)
  have progress: "Semester_fortschritt s =
     Inr (if geplante_ects s = 0 then 0
          else of_int (erreichte_ects s) / of_int (geplante_ects s))"
    by (simp add: Semester_fortschritt_def py_truediv_def)
  from planned earned progress show ?thesis by blast
qed

subsection \<open>The credits and the progress of a program\<close>




section \<open>Properties of the store and the gateway\<close>

subsection \<open>Lookups\<close>





lemma distinct_count1:
  "distinct (map f xs) \<Longrightarrow> k \<in> set (map f xs) \<Longrightarrow> length (filter (\<lambda>x. f x = k) xs) = 1"
proof (induction xs)
  case Nil
  then show ?case by simp
next
  case (Cons x xs)
  show ?case
  proof (cases "f x = k")
    case True
    have "f y \<noteq> k" if "y \<in> set xs" for y
      using Cons.prems(1) True that
      by (metis (no_types, lifting) distinct.simps(2) in_set_conv_decomp list.simps(9) map_append)
    then have "filter (\<lambda>x. f x = k) xs = []"
      by (simp add: filter_empty_conv)
    with True show ?thesis by simp
  next
    case False
    then show ?thesis using Cons by auto
  qed
qed

subsection \<open>Duplicate enrollments\<close>

lemma create_belegung_lookups:
  "create_belegung d nr kz art k = Inr d1 \<Longrightarrow>
   \<exists>sem_id mod_id. select_semester_id_join d nr = Some sem_id \<and> select_modul_id d kz = Some mod_id \<and>
     select_semester_id_join d1 nr = Some sem_id \<and> select_modul_id d1 kz = Some mod_id \<and>
     (if \<not> check_art art \<or> (sem_id, mod_id, art) \<in> set (map belegung_key (belegung d)) then d1 = d
      else belegung d1 = belegung d @ [\<lparr>belr_id = new_rowid (map belr_id (belegung d)), belr_art = art,
                        belr_kommentar = Some k, belr_semester_id = sem_id,
                        belr_modul_id = mod_id\<rparr>])"
  by (auto simp: create_belegung_def subscript_def select_semester_id_join_def select_modul_id_def
      split: option.splits if_splits)

text \<open>
  Claim C6. Let the semester number and the module code resolve to the ids \<open>sem_id\<close> and
  \<open>mod_id\<close>, and let the store respect the UNIQUE constraint of table \<open>belegung\<close>. When
  an enrollment (\<open>sem_id\<close>, \<open>mod_id\<close>, \<open>art\<close>) is stored, \<open>create_belegung\<close> with that
  triple returns without an error and leaves the store as it is, and exactly one row has
  the triple. Likewise, when a first \<open>create_belegung\<close> of an admissible \<open>art\<close> has
  returned the store \<open>d1\<close>, a second one with the same triple returns \<open>d1\<close> again, and
  \<open>d1\<close> holds exactly one row with the triple.
\<close>

theorem create_belegung_idempotent:
  "(select_semester_id_join d nr = Some sem_id \<and> select_modul_id d kz = Some mod_id \<and>
    belegung_unique (belegung d) \<and> (sem_id, mod_id, art) \<in> set (map belegung_key (belegung d)) \<longrightarrow>
      create_belegung d nr kz art k = Inr d \<and>
      length (filter (\<lambda>b. belegung_key b = (sem_id, mod_id, art)) (belegung d)) = 1) \<and>
   (belegung_unique (belegung d) \<and> check_art art \<and> create_belegung d nr kz art k = Inr d1 \<longrightarrow>
      (\<exists>sem_id mod_id. select_semester_id_join d1 nr = Some sem_id \<and>
         select_modul_id d1 kz = Some mod_id \<and>
         create_belegung d1 nr kz art k' = Inr d1 \<and>
         length (filter (\<lambda>b. belegung_key b = (sem_id, mod_id, art)) (belegung d1)) = 1))"
proof (intro conjI impI)
  assume a: "select_semester_id_join d nr = Some sem_id \<and> select_modul_id d kz = Some mod_id \<and>
    belegung_unique (belegung d) \<and> (sem_id, mod_id, art) \<in> set (map belegung_key (belegung d))"
  then show "create_belegung d nr kz art k = Inr d"
    by (simp add: create_belegung_def subscript_def)
  from a show "length (filter (\<lambda>b. belegung_key b = (sem_id, mod_id, art)) (belegung d)) = 1"
    unfolding belegung_unique_def by (intro distinct_count1) auto
next
  assume b: "belegung_unique (belegung d) \<and> check_art art \<and> create_belegung d nr kz art k = Inr d1"
  then obtain sem_id mod_id where
    l: "select_semester_id_join d1 nr = Some sem_id" "select_modul_id d1 kz = Some mod_id"
    and r: "if (sem_id, mod_id, art) \<in> set (map belegung_key (belegung d)) then d1 = d
      else belegung d1 = belegung d @ [\<lparr>belr_id = new_rowid (map belr_id (belegung d)), belr_art = art,
                        belr_kommentar = Some k, belr_semester_id = sem_id,
                        belr_modul_id = mod_id\<rparr>]"
    using create_belegung_lookups [of d nr kz art k d1] by auto
  have mem: "(sem_id, mod_id, art) \<in> set (map belegung_key (belegung d1))"
    using r by (auto simp: belegung_key_def split: if_splits)
  have uniq: "belegung_unique (belegung d1)"
    using r b by (auto simp: belegung_unique_def belegung_key_def split: if_splits)
  have "create_belegung d1 nr kz art k' = Inr d1"
    using l mem by (simp add: create_belegung_def subscript_def)
  moreover have "length (filter (\<lambda>b. belegung_key b = (sem_id, mod_id, art)) (belegung d1)) = 1"
    using uniq mem unfolding belegung_unique_def by (intro distinct_count1) auto
  ultimately show "\<exists>sem_id mod_id. select_semester_id_join d1 nr = Some sem_id \<and>
         select_modul_id d1 kz = Some mod_id \<and>
         create_belegung d1 nr kz art k' = Inr d1 \<and>
         length (filter (\<lambda>b. belegung_key b = (sem_id, mod_id, art)) (belegung d1)) = 1"
    using l by blast
qed

theorem create_belegung_idempotent_witness:
  "select_semester_id_join ex_db 1 = Some 1 \<and> select_modul_id ex_db ''ALG1'' = Some 1 \<and>
   belegung_unique (belegung ex_db) \<and>
   (1, 1, ''geplant'') \<in> set (map belegung_key (belegung ex_db)) \<and>
   create_belegung ex_db 1 ''ALG1'' ''geplant'' ''noch einmal'' = Inr ex_db \<and>
   length (filter (\<lambda>b. belegung_key b = (1, 1, ''geplant'')) (belegung ex_db)) = 1"
proof -
  have ev: "select_semester_id_join ex_db 1 = Some 1 \<and>
      select_modul_id ex_db ''ALG1'' = Some 1 \<and> belegung_unique (belegung ex_db) \<and>
      (1, 1, ''geplant'') \<in> set (map belegung_key (belegung ex_db))"
    by code_simp
  from ev create_belegung_idempotent
    [of ex_db 1 1 "''ALG1''" 1 "''geplant''" "''noch einmal''"]
  show ?thesis by blast
qed

subsection \<open>References that do not exist\<close>




subsection \<open>Initialisation\<close>

text \<open>
  Claim C8. On a store that holds a program, \<open>init_if_needed\<close> changes nothing. On a file
  without tables, and on one with empty tables, it yields the store \<open>ex_init_db\<close>: the
  one program "Bachelor Cybersecurity" with 180 credits and duration 8, and the eight
  semesters numbered 1 to 8, with no other row. It always returns, and running it again
  on its result changes nothing.
\<close>

theorem init_if_needed_idempotent:
  "(studiengang d \<noteq> [] \<longrightarrow> init_if_needed (Some d) = Inr d) \<and>
   init_if_needed None = Inr ex_init_db \<and>
   init_if_needed (Some empty_db) = Inr ex_init_db \<and>
   (\<exists>d1. init_if_needed file = Inr d1 \<and> init_if_needed (Some d1) = Inr d1)"
proof -
  have a: "init_if_needed (Some d) = Inr d" if "studiengang d \<noteq> []" for d
    using that by (simp add: init_if_needed_def)
  have b: "init_if_needed None = Inr ex_init_db"
    by code_simp
  have c: "init_if_needed (Some empty_db) = Inr ex_init_db"
    by code_simp
  have sems: "studiengang (fold (\<lambda>nr. insert_semester nr (f nr) k) nrs d0) = studiengang d0"
    for f k nrs d0
    by (induction nrs arbitrary: d0) (simp_all add: insert_semester_def)
  have "\<exists>d1. init_if_needed file = Inr d1 \<and> studiengang d1 \<noteq> []"
    by (cases "studiengang (case file of None \<Rightarrow> empty_db | Some d \<Rightarrow> d)")
       (auto simp: init_if_needed_def Let_def subscript_def fetchone_def sems split: list.splits)
  then have e: "\<exists>d1. init_if_needed file = Inr d1 \<and> init_if_needed (Some d1) = Inr d1"
    using a by blast
  from a b c e show ?thesis by blast
qed

theorem init_if_needed_idempotent_witness:
  "studiengang ex_db \<noteq> [] \<and> init_if_needed (Some ex_db) = Inr ex_db \<and>
   map semr_nr (semester ex_init_db) = [1, 2, 3, 4, 5, 6, 7, 8] \<and>
   length (studiengang ex_init_db) = 1"
proof -
  have ev: "studiengang ex_db \<noteq> [] \<and>
      map semr_nr (semester ex_init_db) = [1, 2, 3, 4, 5, 6, 7, 8] \<and>
      length (studiengang ex_init_db) = 1"
    by code_simp
  from ev init_if_needed_idempotent [of ex_db] show ?thesis by blast
qed

subsection \<open>Updating an exam result\<close>



subsection \<open>The loops of the graph construction\<close>

lemma load_module_result:
  "load_module rows (refs0, mp0) = Inr (refs, mp) \<Longrightarrow>
   refs = refs0 @ map modr_id rows \<and> dom mp = dom mp0 \<union> set (map modr_id rows)"
proof (induction rows arbitrary: refs0 mp0)
  case Nil
  then show ?case by simp
next
  case (Cons r rows)
  from Cons.prems obtain pf where
    rest: "load_module rows (refs0 @ [modr_id r],
        mp0(modr_id r \<mapsto> Modul_init (modr_name r) (modr_kuerzel r) (modr_ects r) pf)) = Inr (refs, mp)"
    by (auto split: sum.splits)
  from Cons.IH [OF rest] show ?case
    by auto
qed

lemma load_module_fresh:
  "load_module rows (refs0, mp0) = Inr (refs, mp) \<Longrightarrow>
   (\<And>k m. mp0 k = Some m \<Longrightarrow> m_leistungen m = []) \<Longrightarrow>
   mp k = Some m \<Longrightarrow> m_leistungen m = []"
proof (induction rows arbitrary: refs0 mp0)
  case Nil
  then show ?case by simp
next
  case (Cons r rows)
  from Cons.prems(1) obtain pf where
    pf: "Pruefungsform_getitem (modr_pruefungsform r) = Inr pf"
    and rest: "load_module rows (refs0 @ [modr_id r],
        mp0(modr_id r \<mapsto> Modul_init (modr_name r) (modr_kuerzel r) (modr_ects r) pf)) = Inr (refs, mp)"
    by (auto split: sum.splits)
  show ?case
  proof (rule Cons.IH [OF rest _ Cons.prems(3)])
    fix k' m'
    assume "(mp0(modr_id r \<mapsto> Modul_init (modr_name r) (modr_kuerzel r) (modr_ects r) pf)) k' = Some m'"
    then show "m_leistungen m' = []"
      using Cons.prems(2) by (auto simp: Modul_init_def split: if_splits)
  qed
qed

lemma load_pruefungsleistung_result:
  "load_pruefungsleistung rs mp = Inr mp' \<Longrightarrow> mp k = Some m \<Longrightarrow>
   mp' k = Some (m\<lparr>m_leistungen := m_leistungen m @
     map Pruefungsleistung_of_row (filter (\<lambda>r. plr_modul_id r = k) rs)\<rparr>)"
proof (induction rs arbitrary: mp m)
  case Nil
  then show ?case by simp
next
  case (Cons r rs)
  from Cons.prems(1) obtain m0 where
    m0: "mp (plr_modul_id r) = Some m0"
    and rest: "load_pruefungsleistung rs
        (mp(plr_modul_id r \<mapsto> add_pruefungsleistung m0 (Pruefungsleistung_of_row r))) = Inr mp'"
    by (auto split: option.splits)
  show ?case
  proof (cases "plr_modul_id r = k")
    case True
    then have "m0 = m" using m0 Cons.prems(2) by simp
    then have "(mp(plr_modul_id r \<mapsto> add_pruefungsleistung m0 (Pruefungsleistung_of_row r))) k
        = Some (add_pruefungsleistung m (Pruefungsleistung_of_row r))"
      using True by simp
    from Cons.IH [OF rest this] show ?thesis
      using True by (simp add: add_pruefungsleistung_def)
  next
    case False
    then have "(mp(plr_modul_id r \<mapsto> add_pruefungsleistung m0 (Pruefungsleistung_of_row r))) k
        = Some m"
      using Cons.prems(2) by simp
    from Cons.IH [OF rest this] show ?thesis
      using False by simp
  qed
qed

lemma load_domain_Inr:
  assumes "load_domain d = Inr sg"
  obtains sg_row sem_refs sem_map0 mod_refs mod_map0 sem_map mod_map where
    "fetchone (studiengang d) = Some sg_row"
    "load_semester
       (order_by semr_nr (filter (\<lambda>r. semr_studiengang_id r = sgr_id sg_row) (semester d)))
       ([], Map.empty) = (sem_refs, sem_map0)"
    "load_module (filter (\<lambda>r. modr_studiengang_id r = sgr_id sg_row) (modul d))
       ([], Map.empty) = Inr (mod_refs, mod_map0)"
    "load_belegung (belegung d) mod_map0 sem_map0 = Inr sem_map"
    "load_pruefungsleistung (order_by plr_versuch_nr (pruefungsleistung d)) mod_map0 = Inr mod_map"
    "sg = \<lparr>sg_name = sgr_name sg_row, sg_gesamt_ects = sgr_gesamt_ects sg_row,
           sg_regelstudienzeit = sgr_regelstudienzeit sg_row,
           sg_semester = map (Semester_snapshot mod_map) (deref sem_map sem_refs),
           sg_module = deref mod_map mod_refs\<rparr>"
proof -
  obtain sg_row where 1: "fetchone (studiengang d) = Some sg_row"
    using assms by (cases "fetchone (studiengang d)") (simp_all add: load_domain_def subscript_def)
  obtain sem_refs sem_map0 where 2: "load_semester
       (order_by semr_nr (filter (\<lambda>r. semr_studiengang_id r = sgr_id sg_row) (semester d)))
       ([], Map.empty) = (sem_refs, sem_map0)"
    by (cases "load_semester
       (order_by semr_nr (filter (\<lambda>r. semr_studiengang_id r = sgr_id sg_row) (semester d)))
       ([], Map.empty)") blast
  obtain mod_refs mod_map0 where 3:
    "load_module (filter (\<lambda>r. modr_studiengang_id r = sgr_id sg_row) (modul d))
       ([], Map.empty) = Inr (mod_refs, mod_map0)"
    using assms 1 2
    by (cases "load_module (filter (\<lambda>r. modr_studiengang_id r = sgr_id sg_row) (modul d))
       ([], Map.empty)") (auto simp add: load_domain_def subscript_def)
  obtain sem_map where 4: "load_belegung (belegung d) mod_map0 sem_map0 = Inr sem_map"
    using assms 1 2 3
    by (cases "load_belegung (belegung d) mod_map0 sem_map0")
       (simp_all add: load_domain_def subscript_def)
  obtain mod_map where 5:
    "load_pruefungsleistung (order_by plr_versuch_nr (pruefungsleistung d)) mod_map0 = Inr mod_map"
    using assms 1 2 3 4
    by (cases "load_pruefungsleistung (order_by plr_versuch_nr (pruefungsleistung d)) mod_map0")
       (simp_all add: load_domain_def subscript_def)
  have 6: "sg = \<lparr>sg_name = sgr_name sg_row, sg_gesamt_ects = sgr_gesamt_ects sg_row,
           sg_regelstudienzeit = sgr_regelstudienzeit sg_row,
           sg_semester = map (Semester_snapshot mod_map) (deref sem_map sem_refs),
           sg_module = deref mod_map mod_refs\<rparr>"
    using assms 1 2 3 4 5 by (simp add: load_domain_def subscript_def)
  from 1 2 3 4 5 6 show ?thesis by (rule that)
qed

lemma load_domain_module:
  assumes "load_domain d = Inr sg"
  shows "\<exists>sg_row. fetchone (studiengang d) = Some sg_row \<and>
     map m_leistungen (sg_module sg) =
       map (\<lambda>r. map Pruefungsleistung_of_row
                  (filter (\<lambda>p. plr_modul_id p = modr_id r)
                     (order_by plr_versuch_nr (pruefungsleistung d))))
           (filter (\<lambda>r. modr_studiengang_id r = sgr_id sg_row) (modul d))"
proof -
  from assms obtain sg_row sem_refs sem_map0 refs mp0 sem_map mp where
    sg_row: "fetchone (studiengang d) = Some sg_row"
    and lm: "load_module (filter (\<lambda>r. modr_studiengang_id r = sgr_id sg_row) (modul d))
        ([], Map.empty) = Inr (refs, mp0)"
    and lp: "load_pruefungsleistung (order_by plr_versuch_nr (pruefungsleistung d)) mp0 = Inr mp"
    and sg: "sg = \<lparr>sg_name = sgr_name sg_row, sg_gesamt_ects = sgr_gesamt_ects sg_row,
           sg_regelstudienzeit = sgr_regelstudienzeit sg_row,
           sg_semester = map (Semester_snapshot mp) (deref sem_map sem_refs),
           sg_module = deref mp refs\<rparr>"
    by (rule load_domain_Inr)
  define mods where "mods = filter (\<lambda>r. modr_studiengang_id r = sgr_id sg_row) (modul d)"
  have sgm: "sg_module sg = deref mp refs"
    unfolding sg by simp
  have refs: "refs = map modr_id mods" and dom: "dom mp0 = set (map modr_id mods)"
    using load_module_result [OF lm] by (simp_all add: mods_def)
  have "m_leistungen (the (mp (modr_id r))) =
      map Pruefungsleistung_of_row
        (filter (\<lambda>p. plr_modul_id p = modr_id r)
           (order_by plr_versuch_nr (pruefungsleistung d)))" if "r \<in> set mods" for r
  proof -
    from that have "modr_id r \<in> dom mp0"
      unfolding dom by simp
    then obtain m where m: "mp0 (modr_id r) = Some m"
      by blast
    have "m_leistungen m = []"
      by (rule load_module_fresh [OF lm _ m]) simp
    with load_pruefungsleistung_result [OF lp m] show ?thesis
      by simp
  qed
  then have "map m_leistungen (sg_module sg) =
       map (\<lambda>r. map Pruefungsleistung_of_row
                  (filter (\<lambda>p. plr_modul_id p = modr_id r)
                     (order_by plr_versuch_nr (pruefungsleistung d)))) mods"
    unfolding sgm deref_def refs by simp
  with sg_row show ?thesis
    unfolding mods_def by blast
qed

lemma filter_commute: "filter P (filter Q xs) = filter Q (filter P xs)"
  by (induction xs) auto

lemma filter_versuch_nr_of_row:
  "filter (\<lambda>p. pl_versuch_nr p = v) (map Pruefungsleistung_of_row rs) =
   map Pruefungsleistung_of_row (filter (\<lambda>r. plr_versuch_nr r = v) rs)"
  by (induction rs) (simp_all add: Pruefungsleistung_of_row_def)

lemma versuch_nr_of_row: "map pl_versuch_nr (map Pruefungsleistung_of_row rs) = map plr_versuch_nr rs"
  by (simp add: Pruefungsleistung_of_row_def)

subsection \<open>The graph construction returns on a store with referential integrity\<close>

lemma load_semester_result:
  "load_semester rows (refs0, mp0) = (refs, mp) \<Longrightarrow>
   refs = refs0 @ map semr_id rows \<and> dom mp = dom mp0 \<union> set (map semr_id rows)"
proof (induction rows arbitrary: refs0 mp0)
  case Nil
  then show ?case by simp
next
  case (Cons r rows)
  from Cons.IH [OF Cons.prems [simplified]] show ?case
    by auto
qed

lemma load_module_returns:
  "list_all (\<lambda>r. modr_pruefungsform r \<in>
      set (map Pruefungsform_name [KLAUSUR, HAUSARBEIT, PORTFOLIO, MUENDLICH, PROJEKT])) rows \<Longrightarrow>
   \<exists>res. load_module rows acc = Inr res"
proof (induction rows arbitrary: acc)
  case Nil
  then show ?case by simp
next
  case (Cons r rows)
  obtain refs0 mp0 where acc: "acc = (refs0, mp0)"
    by (cases acc)
  from Cons.prems obtain pf where "Pruefungsform_getitem (modr_pruefungsform r) = Inr pf"
    by (auto simp: Pruefungsform_getitem_def)
  moreover from Cons.prems have "list_all (\<lambda>r. modr_pruefungsform r \<in>
      set (map Pruefungsform_name [KLAUSUR, HAUSARBEIT, PORTFOLIO, MUENDLICH, PROJEKT])) rows"
    by simp
  ultimately show ?case
    unfolding acc using Cons.IH by simp
qed

lemma load_belegung_returns:
  "list_all (\<lambda>b. belr_semester_id b \<in> dom sem_map \<and> belr_modul_id b \<in> dom mod_map) rows \<Longrightarrow>
   \<exists>res. load_belegung rows mod_map sem_map = Inr res"
proof (induction rows arbitrary: sem_map)
  case Nil
  then show ?case by simp
next
  case (Cons r rows)
  from Cons.prems obtain sem m where
    sem: "sem_map (belr_semester_id r) = Some sem" and m: "mod_map (belr_modul_id r) = Some m"
    by auto
  let ?sem_map = "sem_map(belr_semester_id r \<mapsto> belege sem (belr_modul_id r) (belr_art r))"
  have "list_all (\<lambda>b. belr_semester_id b \<in> dom ?sem_map \<and> belr_modul_id b \<in> dom mod_map) rows"
    using Cons.prems by (auto simp: list_all_iff)
  from Cons.IH [OF this] obtain res where
    "load_belegung rows mod_map ?sem_map = Inr res"
    by blast
  moreover have "load_belegung (r # rows) mod_map sem_map = load_belegung rows mod_map ?sem_map"
    using sem m by simp
  ultimately show ?case
    by (simp only:) blast
qed

lemma load_pruefungsleistung_returns:
  "list_all (\<lambda>p. plr_modul_id p \<in> dom mod_map) rows \<Longrightarrow>
   \<exists>res. load_pruefungsleistung rows mod_map = Inr res"
proof (induction rows arbitrary: mod_map)
  case Nil
  then show ?case by simp
next
  case (Cons r rows)
  from Cons.prems obtain m where m: "mod_map (plr_modul_id r) = Some m"
    by auto
  let ?mod_map = "mod_map(plr_modul_id r \<mapsto> add_pruefungsleistung m (Pruefungsleistung_of_row r))"
  have "list_all (\<lambda>p. plr_modul_id p \<in> dom ?mod_map) rows"
    using Cons.prems by (auto simp: list_all_iff)
  from Cons.IH [OF this] obtain res where
    "load_pruefungsleistung rows ?mod_map = Inr res"
    by blast
  moreover have "load_pruefungsleistung (r # rows) mod_map = load_pruefungsleistung rows ?mod_map"
    using m by simp
  ultimately show ?case
    by (simp only:) blast
qed

text \<open>
  On a store with referential integrity \<open>load_domain\<close> returns a program: none of
  its lookups raises.
\<close>

theorem load_domain_returns:
  assumes "referential_integrity d"
  shows "\<exists>sg. load_domain d = Inr sg"
proof -
  from assms obtain sg_row where 1: "fetchone (studiengang d) = Some sg_row"
    by (auto simp: referential_integrity_def split: option.splits)
  define sems where "sems = filter (\<lambda>r. semr_studiengang_id r = sgr_id sg_row) (semester d)"
  define mods where "mods = filter (\<lambda>r. modr_studiengang_id r = sgr_id sg_row) (modul d)"
  from assms 1 have
    pf: "list_all (\<lambda>r. modr_pruefungsform r \<in>
      set (map Pruefungsform_name [KLAUSUR, HAUSARBEIT, PORTFOLIO, MUENDLICH, PROJEKT])) mods"
    and bel: "list_all (\<lambda>b. belr_semester_id b \<in> set (map semr_id sems) \<and>
                            belr_modul_id b \<in> set (map modr_id mods)) (belegung d)"
    and pls: "list_all (\<lambda>p. plr_modul_id p \<in> set (map modr_id mods)) (pruefungsleistung d)"
    unfolding referential_integrity_def sems_def mods_def by (simp_all add: Let_def)
  obtain sem_refs sem_map0 where 2:
    "load_semester (order_by semr_nr sems) ([], Map.empty) = (sem_refs, sem_map0)"
    by (cases "load_semester (order_by semr_nr sems) ([], Map.empty)") blast
  have dom_sem: "dom sem_map0 = set (map semr_id sems)"
    using load_semester_result [OF 2] by (simp add: order_by_def)
  from load_module_returns [OF pf] obtain mod_refs mod_map0 where 3:
    "load_module mods ([], Map.empty) = Inr (mod_refs, mod_map0)"
    by fastforce
  have dom_mod: "dom mod_map0 = set (map modr_id mods)"
    using load_module_result [OF 3] by simp
  from load_belegung_returns
    [where rows = "belegung d" and sem_map = sem_map0 and mod_map = mod_map0] bel
  obtain sem_map where 4: "load_belegung (belegung d) mod_map0 sem_map0 = Inr sem_map"
    unfolding dom_sem dom_mod by blast
  have "list_all (\<lambda>p. plr_modul_id p \<in> dom mod_map0) (order_by plr_versuch_nr (pruefungsleistung d))"
    using pls unfolding dom_mod by (simp add: list_all_iff order_by_def)
  from load_pruefungsleistung_returns [OF this] obtain mod_map where 5:
    "load_pruefungsleistung (order_by plr_versuch_nr (pruefungsleistung d)) mod_map0 = Inr mod_map"
    by blast
  show ?thesis
    using 1 2 3 4 5 unfolding sems_def mods_def
    by (simp add: load_domain_def subscript_def)
qed

text \<open>
  The graph construction returns on the example store.
\<close>

theorem load_domain_returns_witness:
  "referential_integrity ex_db \<and> (\<exists>sg. load_domain ex_db = Inr sg)"
proof -
  have ri: "referential_integrity ex_db"
    by code_simp
  from ri load_domain_returns [OF ri] show ?thesis
    by (rule conjI)
qed

subsection \<open>The order of a module's exam results\<close>

text \<open>
  Claim C9. When \<open>load_domain\<close> returns a program, its modules are the program's module
  rows in table order, and for the module of each row, with \<open>stored\<close> the exam-result
  rows of the table that belong to that module, in table order (the order of insertion):
  the module's list is ordered by attempt number, and for every attempt number the
  exam results of that number in the list are exactly those of \<open>stored\<close>, in the order
  of \<open>stored\<close>. The query of \<open>load_domain\<close> is \<open>ORDER BY versuch_nr\<close> alone; the order
  among equal attempt numbers is that of the scan because \<open>order_by\<close> is stable.
\<close>

theorem load_domain_leistungen_order:
  assumes "load_domain d = Inr sg"
  shows "\<exists>sg_row. fetchone (studiengang d) = Some sg_row \<and>
     (let mods = filter (\<lambda>r. modr_studiengang_id r = sgr_id sg_row) (modul d)
      in length (sg_module sg) = length mods \<and>
         (\<forall>i<length mods.
            let ls = m_leistungen (sg_module sg ! i);
                stored = filter (\<lambda>p. plr_modul_id p = modr_id (mods ! i)) (pruefungsleistung d)
            in sorted (map pl_versuch_nr ls) \<and>
               (\<forall>v. filter (\<lambda>p. pl_versuch_nr p = v) ls =
                     map Pruefungsleistung_of_row (filter (\<lambda>p. plr_versuch_nr p = v) stored))))"
proof -
  from load_domain_module [OF assms] obtain sg_row where
    sg_row: "fetchone (studiengang d) = Some sg_row"
    and ls: "map m_leistungen (sg_module sg) =
       map (\<lambda>r. map Pruefungsleistung_of_row
                  (filter (\<lambda>p. plr_modul_id p = modr_id r)
                     (order_by plr_versuch_nr (pruefungsleistung d))))
           (filter (\<lambda>r. modr_studiengang_id r = sgr_id sg_row) (modul d))"
    by blast
  define mods where "mods = filter (\<lambda>r. modr_studiengang_id r = sgr_id sg_row) (modul d)"
  have len: "length (sg_module sg) = length mods"
    using arg_cong [OF ls, of length] by (simp add: mods_def)
  have main: "sorted (map pl_versuch_nr (m_leistungen (sg_module sg ! i))) \<and>
        (\<forall>v. filter (\<lambda>p. pl_versuch_nr p = v) (m_leistungen (sg_module sg ! i)) =
              map Pruefungsleistung_of_row (filter (\<lambda>p. plr_versuch_nr p = v)
                (filter (\<lambda>p. plr_modul_id p = modr_id (mods ! i)) (pruefungsleistung d))))"
    if i: "i < length mods" for i
  proof -
    have "m_leistungen (sg_module sg ! i) = map m_leistungen (sg_module sg) ! i"
      using i len by simp
    also have "\<dots> = map Pruefungsleistung_of_row
                  (filter (\<lambda>p. plr_modul_id p = modr_id (mods ! i))
                     (sort_key plr_versuch_nr (pruefungsleistung d)))"
      unfolding ls using i by (simp add: mods_def order_by_def)
    finally have eq: "m_leistungen (sg_module sg ! i) = map Pruefungsleistung_of_row
                  (filter (\<lambda>p. plr_modul_id p = modr_id (mods ! i))
                     (sort_key plr_versuch_nr (pruefungsleistung d)))" .
    have srt: "sorted (map pl_versuch_nr (m_leistungen (sg_module sg ! i)))"
      unfolding eq versuch_nr_of_row by (intro sorted_filter) simp
    have stable: "filter (\<lambda>p. pl_versuch_nr p = v) (m_leistungen (sg_module sg ! i)) =
              map Pruefungsleistung_of_row (filter (\<lambda>p. plr_versuch_nr p = v)
                (filter (\<lambda>p. plr_modul_id p = modr_id (mods ! i)) (pruefungsleistung d)))" for v
    proof -
      have "filter (\<lambda>p. plr_versuch_nr p = v)
              (filter (\<lambda>p. plr_modul_id p = modr_id (mods ! i))
                 (sort_key plr_versuch_nr (pruefungsleistung d))) =
            filter (\<lambda>p. plr_modul_id p = modr_id (mods ! i))
              (filter (\<lambda>p. plr_versuch_nr p = v) (sort_key plr_versuch_nr (pruefungsleistung d)))"
        by (rule filter_commute)
      also have "\<dots> = filter (\<lambda>p. plr_modul_id p = modr_id (mods ! i))
              (filter (\<lambda>p. plr_versuch_nr p = v) (pruefungsleistung d))"
        by (simp only: sort_key_stable)
      also have "\<dots> = filter (\<lambda>p. plr_versuch_nr p = v)
              (filter (\<lambda>p. plr_modul_id p = modr_id (mods ! i)) (pruefungsleistung d))"
        by (rule filter_commute)
      finally show ?thesis
        unfolding eq filter_versuch_nr_of_row by (rule arg_cong)
    qed
    from srt stable show ?thesis by blast
  qed
  show ?thesis
  proof (rule exI [of _ sg_row], unfold Let_def mods_def [symmetric], intro conjI allI impI)
    show "fetchone (studiengang d) = Some sg_row" by (rule sg_row)
    show "length (sg_module sg) = length mods" by (rule len)
  next
    fix i assume "i < length mods"
    then show "sorted (map pl_versuch_nr (m_leistungen (sg_module sg ! i)))"
      using main by blast
  next
    fix i v assume "i < length mods"
    then show "filter (\<lambda>p. pl_versuch_nr p = v) (m_leistungen (sg_module sg ! i)) =
        map Pruefungsleistung_of_row (filter (\<lambda>p. plr_versuch_nr p = v)
          (filter (\<lambda>p. plr_modul_id p = modr_id (mods ! i)) (pruefungsleistung d)))"
      using main by blast
  qed
qed

theorem load_domain_leistungen_order_witness:
  "referential_integrity ex_db \<and>
   (\<exists>sg. load_domain ex_db = Inr sg \<and>
      map (\<lambda>m. map pl_bezeichnung (m_leistungen m)) (sg_module sg) =
        [[''Klausur'', ''Nachtrag'', ''Wiederholung'']] \<and>
      map (\<lambda>m. map pl_versuch_nr (m_leistungen m)) (sg_module sg) = [[1, 1, 2]])"
proof -
  have ri: "referential_integrity ex_db"
    by code_simp
  have ev: "case load_domain ex_db of
      Inl e \<Rightarrow> False
    | Inr sg \<Rightarrow>
        map (\<lambda>m. map pl_bezeichnung (m_leistungen m)) (sg_module sg) =
          [[''Klausur'', ''Nachtrag'', ''Wiederholung'']] \<and>
        map (\<lambda>m. map pl_versuch_nr (m_leistungen m)) (sg_module sg) = [[1, 1, 2]]"
    by code_simp
  then obtain sg where sg: "load_domain ex_db = Inr sg"
    and vals: "map (\<lambda>m. map pl_bezeichnung (m_leistungen m)) (sg_module sg) =
          [[''Klausur'', ''Nachtrag'', ''Wiederholung'']] \<and>
        map (\<lambda>m. map pl_versuch_nr (m_leistungen m)) (sg_module sg) = [[1, 1, 2]]"
    by (cases "load_domain ex_db") auto
  from load_domain_leistungen_order [OF sg]
  have "\<exists>sg_row. fetchone (studiengang ex_db) = Some sg_row"
    by (elim exE conjE) (rule exI)
  with ri sg vals show ?thesis
    by - (rule conjI, assumption, rule exI [of _ sg], rule conjI, assumption, assumption)
qed

subsection \<open>The listing of a module's exam results\<close>

lemma insort_key_cong_le:
  "\<forall>y\<in>set ys. (f x \<le> f y) = (g x \<le> g y) \<Longrightarrow> insort_key f x ys = insort_key g x ys"
  by (induction ys) simp_all

lemma sort_key_versuch_nr_id:
  "sorted_wrt (<) (map plr_id ps) \<Longrightarrow>
   sort_key (\<lambda>p. (plr_versuch_nr p, plr_id p)) ps = sort_key plr_versuch_nr ps"
proof (induction ps)
  case Nil
  then show ?case by simp
next
  case (Cons p ps)
  then have IH: "sort_key (\<lambda>p. (plr_versuch_nr p, plr_id p)) ps = sort_key plr_versuch_nr ps"
    and less: "\<forall>q\<in>set ps. plr_id p < plr_id q"
    by simp_all
  have "insort_key (\<lambda>p. (plr_versuch_nr p, plr_id p)) p (sort_key plr_versuch_nr ps) =
        insort_key plr_versuch_nr p (sort_key plr_versuch_nr ps)"
    using less by (intro insort_key_cong_le) (auto simp: less_eq_prod_def)
  then show ?case
    by (simp add: IH)
qed

text \<open>
  \<open>list_pruefungsleistungen\<close> orders by attempt number and id. Rowids ascend along a
  table, so it lists the exam results of a module in the order in which \<open>load_domain\<close>
  attaches them.
\<close>

theorem list_pruefungsleistungen_load_order:
  assumes "sorted_wrt (<) (map plr_id (pruefungsleistung d))"
    and "get_modul_id d kuerzel = Inr mod_id"
  shows "list_pruefungsleistungen d kuerzel =
     Inr (filter (\<lambda>p. plr_modul_id p = mod_id) (order_by plr_versuch_nr (pruefungsleistung d)))"
proof -
  have "sorted_wrt (<) (map plr_id (filter (\<lambda>p. plr_modul_id p = mod_id) (pruefungsleistung d)))"
    using assms(1) by (simp add: sorted_wrt_map sorted_wrt_filter)
  then show ?thesis
    using assms(2)
    by (simp add: list_pruefungsleistungen_def order_by_def sort_key_versuch_nr_id filter_sort)
qed

theorem list_pruefungsleistungen_load_order_witness:
  "sorted_wrt (<) (map plr_id (pruefungsleistung ex_db)) \<and>
   get_modul_id ex_db ''ALG1'' = Inr 1 \<and>
   list_pruefungsleistungen ex_db ''ALG1'' =
     Inr (filter (\<lambda>p. plr_modul_id p = 1) (order_by plr_versuch_nr (pruefungsleistung ex_db)))"
proof -
  have asc: "sorted_wrt (<) (map plr_id (pruefungsleistung ex_db))"
    by code_simp
  have mid: "get_modul_id ex_db ''ALG1'' = Inr 1"
    by code_simp
  from asc mid list_pruefungsleistungen_load_order [OF asc mid] show ?thesis
    by (intro conjI)
qed

subsection \<open>The end-to-end run\<close>

text \<open>
  After the run the module has the average 1.70 and is completed; semester 1 has 5
  planned and no earned credits, so its progress is 0; semester 2 has 5 earned credits,
  the module in its list being the object that later got the exam result, and no planned
  ones, so its progress is 0 as well.
\<close>

theorem end_to_end:
  "case ex_end_to_end of
     Inl e \<Rightarrow> False
   | Inr sg \<Rightarrow>
       map Modul_durchschnitt (sg_module sg) = [Some (17 / 10)] \<and>
       map Modul_status (sg_module sg) = [''abgeschlossen''] \<and>
       map geplante_ects (take 2 (sg_semester sg)) = [5, 0] \<and>
       map erreichte_ects (take 2 (sg_semester sg)) = [0, 5] \<and>
       map Semester_fortschritt (take 2 (sg_semester sg)) = [Inr 0, Inr 0] \<and>
       Studiengang_fortschritt sg = Inr (5 / 180) \<and>
       Studiengang_durchschnitt sg = Inr (Some (17 / 10))"
  by code_simp

end
